theory Spec2Isabelle
  imports Main
begin

section \<open>The declarations of src/react/types/types.ts\<close>

text \<open>
  The source file holds type declarations only: interfaces, type aliases and tuple types
  exchanged between the view layer and the query engine. It has no function bodies. The
  embedding therefore takes the declarations themselves as its data. A TypeScript type
  expression is a value of \<open>ts_type\<close>; an interface is the list of its members; a generic
  declaration is a HOL function of its type parameters; \<open>extends\<close>, \<open>Pick\<close>, \<open>Omit\<close>
  and \<open>&\<close> are functions on member lists. Types imported from other modules
  (\<open>ApolloClient\<close>, \<open>ApolloError\<close>, \<open>DocumentNode\<close>, \<open>NetworkStatus\<close>, ...) are
  references by name, since their declarations are not part of this file.
\<close>

subsection \<open>Type expressions\<close>

datatype param_kind = Required | Optional | Rest

datatype ts_type =
    TAny
  | TBoolean
  | TNumber
  | TString
  | TVoid
  | TUndefined
  | TNull
  | TObjectKeyword
  | TVar string
  | TRef string "ts_type list"
  | TArray ts_type
  | TTuple "ts_type list"
  | TUnion ts_type ts_type
  | TInter ts_type ts_type
  | TKeyof ts_type
  | TObject "member list"
  | TFunction "type_param list" "param list" ts_type
and member = Member (member_name: string) (member_optional: bool) (member_type: ts_type)
and param = Param (param_name: string) (param_kind: param_kind) (param_type: ts_type)
and type_param = TypeParam (type_param_name: string) (type_param_constraint: "ts_type option")

text \<open>
  \<open>TVar\<close> is a type parameter bound by a generic function type (\<open>K\<close>, \<open>TData2\<close>,
  \<open>TVariables2\<close> in \<open>fetchMore\<close>). The type parameters of a declaration (\<open>TData\<close>,
  \<open>TVariables\<close>, \<open>TOptions\<close>, \<open>T\<close>) are the arguments of the HOL function that
  models it. \<open>TObjectKeyword\<close> is the type \<open>object\<close>; \<open>TObject []\<close> is \<open>{}\<close>.
\<close>

subsection \<open>Operations on member lists\<close>

definition member_names :: "member list \<Rightarrow> string list" where
  "member_names ms = map member_name ms"

definition lookup_member :: "member list \<Rightarrow> string \<Rightarrow> member option" where
  "lookup_member ms k = find (\<lambda>m. member_name m = k) ms"

definition required :: "string \<Rightarrow> ts_type \<Rightarrow> member" where
  "required k t = Member k False t"

definition optional :: "string \<Rightarrow> ts_type \<Rightarrow> member" where
  "optional k t = Member k True t"

text \<open>\<open>interface I extends P { own }\<close>: the members of \<open>P\<close> that \<open>I\<close> does not
  declare again, then the members \<open>I\<close> declares.\<close>

definition interface_extends :: "member list \<Rightarrow> member list \<Rightarrow> member list" where
  "interface_extends parent own =
     filter (\<lambda>m. member_name m \<notin> set (member_names own)) parent @ own"

text \<open>\<open>Pick<T, K>\<close> keeps the members of \<open>T\<close> named in \<open>K\<close>; \<open>Omit<T, K>\<close> drops them.\<close>

definition Pick :: "member list \<Rightarrow> string list \<Rightarrow> member list" where
  "Pick ms ks = filter (\<lambda>m. member_name m \<in> set ks) ms"

definition Omit :: "member list \<Rightarrow> string list \<Rightarrow> member list" where
  "Omit ms ks = filter (\<lambda>m. member_name m \<notin> set ks) ms"

text \<open>\<open>A & B\<close> on object types: every member of either; a member of both has the
  intersection of the two member types and is optional only when optional in both.\<close>

definition merge_member :: "member list \<Rightarrow> member \<Rightarrow> member" where
  "merge_member bs m =
     (case lookup_member bs (member_name m) of
        None \<Rightarrow> m
      | Some m' \<Rightarrow> Member (member_name m) (member_optional m \<and> member_optional m')
                    (TInter (member_type m) (member_type m')))"

definition intersect_members :: "member list \<Rightarrow> member list \<Rightarrow> member list" where
  "intersect_members as bs =
     map (merge_member bs) as @ filter (\<lambda>m. member_name m \<notin> set (member_names as)) bs"

subsection \<open>Reading type expressions\<close>


fun call_signatures :: "ts_type \<Rightarrow> ts_type list" where
  "call_signatures (TInter a b) = call_signatures a @ call_signatures b"
| "call_signatures (TFunction tps ps r) = [TFunction tps ps r]"
| "call_signatures t = []"

fun type_params_of :: "ts_type \<Rightarrow> type_param list option" where
  "type_params_of (TFunction tps ps r) = Some tps"
| "type_params_of t = None"

fun params_of :: "ts_type \<Rightarrow> param list option" where
  "params_of (TFunction tps ps r) = Some ps"
| "params_of t = None"

fun return_type_of :: "ts_type \<Rightarrow> ts_type option" where
  "return_type_of (TFunction tps ps r) = Some r"
| "return_type_of t = None"

fun tuple_elements :: "ts_type \<Rightarrow> ts_type list option" where
  "tuple_elements (TTuple ts) = Some ts"
| "tuple_elements t = None"

subsection \<open>Imported and built-in types, by name\<close>

text \<open>Lines 1-21 import these names; \<open>Promise\<close>, \<open>Record\<close> and \<open>JSX.Element\<close> are
  ambient. Their declarations are outside the file, so each is a reference.\<close>

definition ReactNode :: ts_type where
  "ReactNode = TRef ''ReactNode'' []"

definition DocumentNode :: ts_type where
  "DocumentNode = TRef ''DocumentNode'' []"

definition GraphQLError :: ts_type where
  "GraphQLError = TRef ''GraphQLError'' []"

definition Observable :: "ts_type \<Rightarrow> ts_type" where
  "Observable t = TRef ''Observable'' [t]"

definition FetchResult :: "ts_type \<Rightarrow> ts_type" where
  "FetchResult t = TRef ''FetchResult'' [t]"

definition ApolloClient :: "ts_type \<Rightarrow> ts_type" where
  "ApolloClient t = TRef ''ApolloClient'' [t]"

definition ApolloQueryResult :: "ts_type \<Rightarrow> ts_type" where
  "ApolloQueryResult t = TRef ''ApolloQueryResult'' [t]"

definition PureQueryOptions :: ts_type where
  "PureQueryOptions = TRef ''PureQueryOptions'' []"

definition OperationVariables :: ts_type where
  "OperationVariables = TRef ''OperationVariables'' []"

definition ApolloError :: ts_type where
  "ApolloError = TRef ''ApolloError'' []"

definition FetchPolicy :: ts_type where
  "FetchPolicy = TRef ''FetchPolicy'' []"

definition WatchQueryFetchPolicy :: ts_type where
  "WatchQueryFetchPolicy = TRef ''WatchQueryFetchPolicy'' []"

definition ErrorPolicy :: ts_type where
  "ErrorPolicy = TRef ''ErrorPolicy'' []"

definition FetchMoreQueryOptions :: "ts_type \<Rightarrow> ts_type \<Rightarrow> ts_type" where
  "FetchMoreQueryOptions v k = TRef ''FetchMoreQueryOptions'' [v, k]"

definition MutationUpdaterFn :: "ts_type \<Rightarrow> ts_type" where
  "MutationUpdaterFn t = TRef ''MutationUpdaterFn'' [t]"

definition FetchMoreOptions :: "ts_type \<Rightarrow> ts_type \<Rightarrow> ts_type" where
  "FetchMoreOptions d v = TRef ''FetchMoreOptions'' [d, v]"

definition ObservableQuery :: "ts_type \<Rightarrow> ts_type \<Rightarrow> ts_type" where
  "ObservableQuery d v = TRef ''ObservableQuery'' [d, v]"

definition NetworkStatus :: ts_type where
  "NetworkStatus = TRef ''NetworkStatus'' []"

definition ZenObservable_Subscription :: ts_type where
  "ZenObservable_Subscription = TRef ''ZenObservable.Subscription'' []"

definition JSX_Element :: ts_type where
  "JSX_Element = TRef ''JSX.Element'' []"

definition Promise :: "ts_type \<Rightarrow> ts_type" where
  "Promise t = TRef ''Promise'' [t]"

definition Record :: "ts_type \<Rightarrow> ts_type \<Rightarrow> ts_type" where
  "Record k t = TRef ''Record'' [k, t]"

subsection \<open>Common types (lines 23-35)\<close>

definition Context :: ts_type where
  "Context = Record TString TAny"

text \<open>\<open>ExecutionResult<T = Record<string, any>>\<close>\<close>

definition ExecutionResult :: "ts_type \<Rightarrow> member list" where
  "ExecutionResult T =
     [optional ''data'' T,
      optional ''extensions'' (Record TString TAny),
      optional ''errors'' (TArray GraphQLError)]"

definition CommonOptions :: "member list \<Rightarrow> member list" where
  "CommonOptions TOptions =
     intersect_members TOptions [optional ''client'' (ApolloClient TObjectKeyword)]"

subsection \<open>Query types (lines 37-135)\<close>

text \<open>Every \<open>TData\<close> below defaults to \<open>any\<close> and every \<open>TVariables\<close> to
  \<open>OperationVariables\<close> where the source gives a default; the declarations that give
  none are \<open>ObservableQueryFields\<close>, \<open>QueryPreviousData\<close>, \<open>QueryCurrentObservable\<close>,
  \<open>QueryLazyOptions\<close>, \<open>QueryTuple\<close> and \<open>MutationTuple\<close>.\<close>

definition BaseQueryOptions :: "ts_type \<Rightarrow> member list" where
  "BaseQueryOptions TVariables =
     [optional ''ssr'' TBoolean,
      optional ''variables'' TVariables,
      optional ''fetchPolicy'' WatchQueryFetchPolicy,
      optional ''errorPolicy'' ErrorPolicy,
      optional ''pollInterval'' TNumber,
      optional ''client'' (ApolloClient TAny),
      optional ''notifyOnNetworkStatusChange'' TBoolean,
      optional ''context'' Context,
      optional ''partialRefetch'' TBoolean,
      optional ''returnPartialData'' TBoolean]"

definition QueryFunctionOptions :: "ts_type \<Rightarrow> ts_type \<Rightarrow> member list" where
  "QueryFunctionOptions TData TVariables =
     interface_extends (BaseQueryOptions TVariables)
       [optional ''displayName'' TString,
        optional ''skip'' TBoolean,
        optional ''onCompleted'' (TFunction [] [Param ''data'' Required TData] TVoid),
        optional ''onError'' (TFunction [] [Param ''error'' Required ApolloError] TVoid)]"

text \<open>The two call shapes of \<open>fetchMore\<close> (lines 71-74 and 75-81), and their
  intersection, the type of the member.\<close>

definition fetchMore_same_type :: "ts_type \<Rightarrow> ts_type \<Rightarrow> ts_type" where
  "fetchMore_same_type TData TVariables =
     TFunction [TypeParam ''K'' (Some (TKeyof TVariables))]
       [Param ''fetchMoreOptions'' Required
          (TInter (FetchMoreQueryOptions TVariables (TVar ''K''))
                  (FetchMoreOptions TData TVariables))]
       (Promise (ApolloQueryResult TData))"

definition fetchMore_cross_type :: ts_type where
  "fetchMore_cross_type =
     TFunction
       [TypeParam ''TData2'' None,
        TypeParam ''TVariables2'' None,
        TypeParam ''K'' (Some (TKeyof (TVar ''TVariables2'')))]
       [Param ''fetchMoreOptions'' Required
          (TInter
             (TInter (TObject [optional ''query'' DocumentNode])
                     (FetchMoreQueryOptions (TVar ''TVariables2'') (TVar ''K'')))
             (FetchMoreOptions (TVar ''TData2'') (TVar ''TVariables2'')))]
       (Promise (ApolloQueryResult (TVar ''TData2'')))"

definition fetchMore_type :: "ts_type \<Rightarrow> ts_type \<Rightarrow> ts_type" where
  "fetchMore_type TData TVariables =
     TInter (fetchMore_same_type TData TVariables) fetchMore_cross_type"

text \<open>\<open>ObservableQueryFields\<close> picks six members of the imported class
  \<open>ObservableQuery<TData, TVariables>\<close>. The class is declared in another module, so its
  member list is the parameter \<open>oq\<close>.\<close>

definition ObservableQueryFields :: "member list \<Rightarrow> ts_type \<Rightarrow> ts_type \<Rightarrow> member list" where
  "ObservableQueryFields oq TData TVariables =
     intersect_members
       (Pick oq [''startPolling'', ''stopPolling'', ''subscribeToMore'', ''updateQuery'',
                 ''refetch'', ''variables''])
       [required ''fetchMore'' (fetchMore_type TData TVariables)]"

definition QueryResult :: "member list \<Rightarrow> ts_type \<Rightarrow> ts_type \<Rightarrow> member list" where
  "QueryResult oq TData TVariables =
     interface_extends (ObservableQueryFields oq TData TVariables)
       [required ''client'' (ApolloClient TAny),
        required ''data'' (TUnion TData TUndefined),
        optional ''error'' ApolloError,
        required ''loading'' TBoolean,
        required ''networkStatus'' NetworkStatus,
        required ''called'' TBoolean]"

definition QueryOptions :: "ts_type \<Rightarrow> ts_type \<Rightarrow> member list" where
  "QueryOptions TData TVariables =
     interface_extends (QueryFunctionOptions TData TVariables)
       [optional ''children''
          (TFunction [] [Param ''result'' Required (TRef ''QueryResult'' [TData, TVariables])]
             ReactNode),
        required ''query'' DocumentNode]"

definition QueryHookOptions :: "ts_type \<Rightarrow> ts_type \<Rightarrow> member list" where
  "QueryHookOptions TData TVariables =
     interface_extends (QueryFunctionOptions TData TVariables)
       [optional ''query'' DocumentNode]"

definition LazyQueryHookOptions :: "ts_type \<Rightarrow> ts_type \<Rightarrow> member list" where
  "LazyQueryHookOptions TData TVariables =
     interface_extends (Omit (QueryFunctionOptions TData TVariables) [''skip''])
       [optional ''query'' DocumentNode]"

definition QueryPreviousData :: "ts_type \<Rightarrow> ts_type \<Rightarrow> member list" where
  "QueryPreviousData TData TVariables =
     [optional ''client'' (ApolloClient TObjectKeyword),
      optional ''query'' DocumentNode,
      optional ''observableQueryOptions'' (TObject []),
      optional ''result'' (TUnion (ApolloQueryResult TData) TNull),
      optional ''loading'' TBoolean,
      optional ''options'' (TRef ''QueryOptions'' [TData, TVariables]),
      optional ''error'' ApolloError]"

definition QueryCurrentObservable :: "ts_type \<Rightarrow> ts_type \<Rightarrow> member list" where
  "QueryCurrentObservable TData TVariables =
     [optional ''query'' (TUnion (ObservableQuery TData TVariables) TNull),
      optional ''subscription'' ZenObservable_Subscription]"

definition QueryLazyOptions :: "ts_type \<Rightarrow> member list" where
  "QueryLazyOptions TVariables =
     [optional ''variables'' TVariables,
      optional ''context'' Context]"

definition QueryTuple :: "ts_type \<Rightarrow> ts_type \<Rightarrow> ts_type" where
  "QueryTuple TData TVariables =
     TTuple
       [TFunction [] [Param ''options'' Optional (TRef ''QueryLazyOptions'' [TVariables])] TVoid,
        TRef ''QueryResult'' [TData, TVariables]]"

subsection \<open>Mutation types (lines 137-207)\<close>

definition RefetchQueriesFunction :: ts_type where
  "RefetchQueriesFunction =
     TFunction [] [Param ''args'' Rest (TArray TAny)]
       (TArray (TUnion TString PureQueryOptions))"

definition BaseMutationOptions :: "ts_type \<Rightarrow> ts_type \<Rightarrow> member list" where
  "BaseMutationOptions TData TVariables =
     [optional ''variables'' TVariables,
      optional ''optimisticResponse''
        (TUnion TData (TFunction [] [Param ''vars'' Required TVariables] TData)),
      optional ''refetchQueries''
        (TUnion (TArray (TUnion TString PureQueryOptions)) RefetchQueriesFunction),
      optional ''awaitRefetchQueries'' TBoolean,
      optional ''errorPolicy'' ErrorPolicy,
      optional ''update'' (MutationUpdaterFn TData),
      optional ''client'' (ApolloClient TObjectKeyword),
      optional ''notifyOnNetworkStatusChange'' TBoolean,
      optional ''context'' Context,
      optional ''onCompleted'' (TFunction [] [Param ''data'' Required TData] TVoid),
      optional ''onError'' (TFunction [] [Param ''error'' Required ApolloError] TVoid),
      optional ''fetchPolicy'' WatchQueryFetchPolicy,
      optional ''ignoreResults'' TBoolean]"

definition MutationFunctionOptions :: "ts_type \<Rightarrow> ts_type \<Rightarrow> member list" where
  "MutationFunctionOptions TData TVariables =
     [optional ''variables'' TVariables,
      optional ''optimisticResponse''
        (TUnion TData
           (TFunction [] [Param ''vars'' Required (TUnion TVariables (TObject []))] TData)),
      optional ''refetchQueries''
        (TUnion (TArray (TUnion TString PureQueryOptions)) RefetchQueriesFunction),
      optional ''awaitRefetchQueries'' TBoolean,
      optional ''update'' (MutationUpdaterFn TData),
      optional ''context'' Context,
      optional ''fetchPolicy'' WatchQueryFetchPolicy]"

definition MutationResult :: "ts_type \<Rightarrow> member list" where
  "MutationResult TData =
     [optional ''data'' TData,
      optional ''error'' ApolloError,
      required ''loading'' TBoolean,
      required ''called'' TBoolean,
      optional ''client'' (ApolloClient TObjectKeyword)]"

definition MutationFunction :: "ts_type \<Rightarrow> ts_type \<Rightarrow> ts_type" where
  "MutationFunction TData TVariables =
     TFunction []
       [Param ''options'' Optional (TRef ''MutationFunctionOptions'' [TData, TVariables])]
       (Promise (FetchResult TData))"

definition MutationHookOptions :: "ts_type \<Rightarrow> ts_type \<Rightarrow> member list" where
  "MutationHookOptions TData TVariables =
     interface_extends (BaseMutationOptions TData TVariables)
       [optional ''mutation'' DocumentNode]"

definition MutationOptions :: "ts_type \<Rightarrow> ts_type \<Rightarrow> member list" where
  "MutationOptions TData TVariables =
     interface_extends (BaseMutationOptions TData TVariables)
       [required ''mutation'' DocumentNode]"

definition MutationTuple :: "ts_type \<Rightarrow> ts_type \<Rightarrow> ts_type" where
  "MutationTuple TData TVariables =
     TTuple
       [TFunction []
          [Param ''options'' Optional (TRef ''MutationFunctionOptions'' [TData, TVariables])]
          (Promise (TRef ''ExecutionResult'' [TData])),
        TRef ''MutationResult'' [TData]]"

subsection \<open>Subscription types (lines 209-255)\<close>

definition OnSubscriptionDataOptions :: "ts_type \<Rightarrow> member list" where
  "OnSubscriptionDataOptions TData =
     [required ''client'' (ApolloClient TObjectKeyword),
      required ''subscriptionData'' (TRef ''SubscriptionResult'' [TData])]"

definition BaseSubscriptionOptions :: "ts_type \<Rightarrow> ts_type \<Rightarrow> member list" where
  "BaseSubscriptionOptions TData TVariables =
     [optional ''variables'' TVariables,
      optional ''fetchPolicy'' FetchPolicy,
      optional ''shouldResubscribe''
        (TUnion TBoolean
           (TFunction []
              [Param ''options'' Required (TRef ''BaseSubscriptionOptions'' [TData, TVariables])]
              TBoolean)),
      optional ''client'' (ApolloClient TObjectKeyword),
      optional ''skip'' TBoolean,
      optional ''onSubscriptionData''
        (TFunction [] [Param ''options'' Required (TRef ''OnSubscriptionDataOptions'' [TData])]
           TAny),
      optional ''onSubscriptionComplete'' (TFunction [] [] TVoid)]"

definition SubscriptionResult :: "ts_type \<Rightarrow> member list" where
  "SubscriptionResult TData =
     [required ''loading'' TBoolean,
      optional ''data'' TData,
      optional ''error'' ApolloError]"

definition SubscriptionHookOptions :: "ts_type \<Rightarrow> ts_type \<Rightarrow> member list" where
  "SubscriptionHookOptions TData TVariables =
     interface_extends (BaseSubscriptionOptions TData TVariables)
       [optional ''subscription'' DocumentNode]"

definition SubscriptionOptions :: "ts_type \<Rightarrow> ts_type \<Rightarrow> member list" where
  "SubscriptionOptions TData TVariables =
     interface_extends (BaseSubscriptionOptions TData TVariables)
       [required ''subscription'' DocumentNode,
        optional ''children''
          (TUnion TNull
             (TFunction [] [Param ''result'' Required (TRef ''SubscriptionResult'' [TData])]
                (TUnion JSX_Element TNull)))]"

definition SubscriptionCurrentObservable :: "member list" where
  "SubscriptionCurrentObservable =
     [optional ''query'' (Observable TAny),
      optional ''subscription'' ZenObservable_Subscription]"

subsection \<open>Resolving a reference to an interface of this file\<close>

text \<open>A member type names another interface of the file by \<open>TRef\<close> (an interface may
  name itself, as \<open>BaseSubscriptionOptions\<close> does). \<open>declared\<close> gives the members a
  reference stands for, and \<open>None\<close> for a name the file does not declare. \<open>oq\<close> is the
  member list of the imported \<open>ObservableQuery\<close> class, see \<open>ObservableQueryFields\<close>.\<close>

fun declared :: "member list \<Rightarrow> ts_type \<Rightarrow> member list option" where
  "declared oq (TRef n args) =
     (if n = ''ExecutionResult'' then
        (case args of [t] \<Rightarrow> Some (ExecutionResult t) | _ \<Rightarrow> None)
      else if n = ''BaseQueryOptions'' then
        (case args of [v] \<Rightarrow> Some (BaseQueryOptions v) | _ \<Rightarrow> None)
      else if n = ''QueryFunctionOptions'' then
        (case args of [d, v] \<Rightarrow> Some (QueryFunctionOptions d v) | _ \<Rightarrow> None)
      else if n = ''ObservableQueryFields'' then
        (case args of [d, v] \<Rightarrow> Some (ObservableQueryFields oq d v) | _ \<Rightarrow> None)
      else if n = ''QueryResult'' then
        (case args of [d, v] \<Rightarrow> Some (QueryResult oq d v) | _ \<Rightarrow> None)
      else if n = ''QueryOptions'' then
        (case args of [d, v] \<Rightarrow> Some (QueryOptions d v) | _ \<Rightarrow> None)
      else if n = ''QueryHookOptions'' then
        (case args of [d, v] \<Rightarrow> Some (QueryHookOptions d v) | _ \<Rightarrow> None)
      else if n = ''LazyQueryHookOptions'' then
        (case args of [d, v] \<Rightarrow> Some (LazyQueryHookOptions d v) | _ \<Rightarrow> None)
      else if n = ''QueryPreviousData'' then
        (case args of [d, v] \<Rightarrow> Some (QueryPreviousData d v) | _ \<Rightarrow> None)
      else if n = ''QueryCurrentObservable'' then
        (case args of [d, v] \<Rightarrow> Some (QueryCurrentObservable d v) | _ \<Rightarrow> None)
      else if n = ''QueryLazyOptions'' then
        (case args of [v] \<Rightarrow> Some (QueryLazyOptions v) | _ \<Rightarrow> None)
      else if n = ''BaseMutationOptions'' then
        (case args of [d, v] \<Rightarrow> Some (BaseMutationOptions d v) | _ \<Rightarrow> None)
      else if n = ''MutationFunctionOptions'' then
        (case args of [d, v] \<Rightarrow> Some (MutationFunctionOptions d v) | _ \<Rightarrow> None)
      else if n = ''MutationResult'' then
        (case args of [d] \<Rightarrow> Some (MutationResult d) | _ \<Rightarrow> None)
      else if n = ''MutationHookOptions'' then
        (case args of [d, v] \<Rightarrow> Some (MutationHookOptions d v) | _ \<Rightarrow> None)
      else if n = ''MutationOptions'' then
        (case args of [d, v] \<Rightarrow> Some (MutationOptions d v) | _ \<Rightarrow> None)
      else if n = ''OnSubscriptionDataOptions'' then
        (case args of [d] \<Rightarrow> Some (OnSubscriptionDataOptions d) | _ \<Rightarrow> None)
      else if n = ''BaseSubscriptionOptions'' then
        (case args of [d, v] \<Rightarrow> Some (BaseSubscriptionOptions d v) | _ \<Rightarrow> None)
      else if n = ''SubscriptionResult'' then
        (case args of [d] \<Rightarrow> Some (SubscriptionResult d) | _ \<Rightarrow> None)
      else if n = ''SubscriptionHookOptions'' then
        (case args of [d, v] \<Rightarrow> Some (SubscriptionHookOptions d v) | _ \<Rightarrow> None)
      else if n = ''SubscriptionOptions'' then
        (case args of [d, v] \<Rightarrow> Some (SubscriptionOptions d v) | _ \<Rightarrow> None)
      else if n = ''SubscriptionCurrentObservable'' then
        (case args of [] \<Rightarrow> Some SubscriptionCurrentObservable | _ \<Rightarrow> None)
      else None)"
| "declared oq t = None"

subsection \<open>Reading a tuple of a trigger and a snapshot\<close>

text \<open>\<open>QueryTuple\<close> and \<open>MutationTuple\<close> are tuple types of two elements. The two
  readers answer only for a tuple of exactly two elements.\<close>

fun trigger_of :: "ts_type \<Rightarrow> ts_type option" where
  "trigger_of (TTuple [f, s]) = Some f"
| "trigger_of t = None"

fun snapshot_of :: "ts_type \<Rightarrow> ts_type option" where
  "snapshot_of (TTuple [f, s]) = Some s"
| "snapshot_of t = None"

subsection \<open>What a function type is applied to\<close>

text \<open>The types of the arguments a parameter stands for: a rest parameter
  \<open>...args: T[]\<close> stands for arguments of type \<open>T\<close>, any other parameter for one
  argument of its own type. \<open>receives ts f\<close> holds when \<open>f\<close> is a function type with a
  parameter that stands for an argument of one of the types \<open>ts\<close>.\<close>

fun argument_types :: "param \<Rightarrow> ts_type list" where
  "argument_types (Param n Rest (TArray t)) = [t]"
| "argument_types (Param n Rest t) = []"
| "argument_types (Param n k t) = [t]"

definition receives :: "ts_type list \<Rightarrow> ts_type \<Rightarrow> bool" where
  "receives ts f =
     (case params_of f of
        None \<Rightarrow> False
      | Some ps \<Rightarrow> list_ex (\<lambda>t. t \<in> set ts) (concat (map argument_types ps)))"


text \<open>The members of an options bundle that are callbacks applied to the outcome of an
  execution: function types with a parameter of type \<open>TData\<close> or \<open>ApolloError\<close>.\<close>

definition outcome_callbacks :: "ts_type \<Rightarrow> member list \<Rightarrow> string list" where
  "outcome_callbacks TData ms =
     member_names (filter (\<lambda>m. receives [TData, ApolloError] (member_type m)) ms)"

section \<open>Properties of the declarations\<close>

subsection \<open>Looking a member up through the operations\<close>

lemma lookup_member_Nil: "lookup_member [] k = None"
  by (simp add: lookup_member_def)

lemma lookup_member_Cons:
  "lookup_member (m # ms) k = (if member_name m = k then Some m else lookup_member ms k)"
  by (simp add: lookup_member_def)

lemma lookup_member_append:
  "lookup_member (as @ bs) k =
     (case lookup_member as k of None \<Rightarrow> lookup_member bs k | Some m \<Rightarrow> Some m)"
  by (induction as) (simp_all add: lookup_member_Nil lookup_member_Cons)

lemma lookup_member_filter:
  "lookup_member (filter (\<lambda>m. P (member_name m)) ms) k =
     (if P k then lookup_member ms k else None)"
  by (induction ms) (auto simp: lookup_member_Nil lookup_member_Cons)

lemma lookup_member_None_iff: "lookup_member ms k = None \<longleftrightarrow> k \<notin> set (member_names ms)"
  by (induction ms) (auto simp: lookup_member_Nil lookup_member_Cons member_names_def)

lemma lookup_member_Pick:
  "lookup_member (Pick ms ks) k = (if k \<in> set ks then lookup_member ms k else None)"
  unfolding Pick_def by (rule lookup_member_filter)

lemma lookup_member_Omit:
  "lookup_member (Omit ms ks) k = (if k \<in> set ks then None else lookup_member ms k)"
  unfolding Omit_def using lookup_member_filter [of "\<lambda>n. n \<notin> set ks" ms k] by simp

lemma lookup_member_interface_extends:
  "lookup_member (interface_extends parent own) k =
     (case lookup_member own k of None \<Rightarrow> lookup_member parent k | Some m \<Rightarrow> Some m)"
proof (cases "lookup_member own k")
  case None
  then have "k \<notin> set (member_names own)" by (simp add: lookup_member_None_iff)
  with None show ?thesis
    unfolding interface_extends_def
    using lookup_member_filter [of "\<lambda>n. n \<notin> set (member_names own)" parent k]
    by (simp add: lookup_member_append split: option.split)
next
  case (Some m)
  then have "k \<in> set (member_names own)"
    using lookup_member_None_iff [of own k] by auto
  with Some show ?thesis
    unfolding interface_extends_def
    using lookup_member_filter [of "\<lambda>n. n \<notin> set (member_names own)" parent k]
    by (simp add: lookup_member_append)
qed

lemma member_name_merge_member: "member_name (merge_member bs m) = member_name m"
  by (simp add: merge_member_def split: option.split)

lemma lookup_member_map_merge:
  "lookup_member (map (merge_member bs) as) k = map_option (merge_member bs) (lookup_member as k)"
  by (induction as) (simp_all add: lookup_member_Nil lookup_member_Cons member_name_merge_member)

lemma lookup_member_intersect_members:
  "lookup_member (intersect_members as bs) k =
     (case lookup_member as k of
        None \<Rightarrow> lookup_member bs k
      | Some m \<Rightarrow> Some (merge_member bs m))"
proof (cases "lookup_member as k")
  case None
  then have "k \<notin> set (member_names as)" by (simp add: lookup_member_None_iff)
  with None show ?thesis
    unfolding intersect_members_def
    using lookup_member_filter [of "\<lambda>n. n \<notin> set (member_names as)" bs k]
    by (simp add: lookup_member_append lookup_member_map_merge)
next
  case (Some m)
  then show ?thesis
    unfolding intersect_members_def
    by (simp add: lookup_member_append lookup_member_map_merge)
qed

lemma member_names_interface_extends:
  "set (member_names (interface_extends parent own)) =
     set (member_names parent) \<union> set (member_names own)"
  by (auto simp: interface_extends_def member_names_def)

lemma member_names_Pick: "set (member_names (Pick ms ks)) = set (member_names ms) \<inter> set ks"
  by (auto simp: Pick_def member_names_def)

lemma member_names_Omit: "set (member_names (Omit ms ks)) = set (member_names ms) - set ks"
  by (auto simp: Omit_def member_names_def)

lemma member_names_intersect_members:
  "set (member_names (intersect_members as bs)) =
     set (member_names as) \<union> set (member_names bs)"
  by (auto simp: intersect_members_def member_names_def member_name_merge_member)


lemmas member_defs = required_def optional_def

lemma lookup_member_ObservableQueryFields_other:
  "k \<notin> set [''startPolling'', ''stopPolling'', ''subscribeToMore'', ''updateQuery'',
               ''refetch'', ''variables'', ''fetchMore'']
   \<Longrightarrow> lookup_member (ObservableQueryFields oq TData TVariables) k = None"
  by (auto simp: ObservableQueryFields_def lookup_member_intersect_members lookup_member_Pick
      lookup_member_Cons lookup_member_Nil member_defs)

lemma not_member_name: "lookup_member ms k = None \<Longrightarrow> k \<notin> set (member_names ms)"
  by (simp add: lookup_member_None_iff)

lemma lookup_member_SomeD:
  "lookup_member ms k = Some m \<Longrightarrow> m \<in> set ms \<and> member_name m = k"
  by (induction ms) (auto simp: lookup_member_Nil lookup_member_Cons split: if_splits)

lemma outcome_callbacks_member:
  "lookup_member ms k = Some m \<Longrightarrow> receives [TData, ApolloError] (member_type m)
   \<Longrightarrow> k \<in> set (outcome_callbacks TData ms)"
  using lookup_member_SomeD [of ms k m]
  by (force simp: outcome_callbacks_def member_names_def)

lemma lookup_member_LazyQueryHookOptions_callbacks:
  "lookup_member (LazyQueryHookOptions TData TVariables) ''onCompleted'' =
     Some (optional ''onCompleted'' (TFunction [] [Param ''data'' Required TData] TVoid))
   \<and> lookup_member (LazyQueryHookOptions TData TVariables) ''onError'' =
       Some (optional ''onError'' (TFunction [] [Param ''error'' Required ApolloError] TVoid))"
  by (simp add: LazyQueryHookOptions_def QueryFunctionOptions_def
      lookup_member_interface_extends lookup_member_Omit lookup_member_Cons lookup_member_Nil
      member_defs)

subsection \<open>Shapes of results, options and tuples\<close>

text \<open>
  The declarations fix which members a record has and the type of each. They relate no
  member to another: nothing in the file ties \<open>loading\<close>, \<open>networkStatus\<close>, \<open>error\<close>,
  \<open>called\<close> and \<open>data\<close> of a \<open>QueryResult\<close> together, and the code that builds the
  snapshots is in other modules. The theorems below are therefore about the declared shapes.
\<close>

text \<open>
  C1. \<open>MutationTuple\<close> (lines 202-207) is a tuple of exactly two elements. The first is
  a function type with no type parameters and one optional parameter \<open>options\<close> of type
  \<open>MutationFunctionOptions<TData, TVariables>\<close>, returning
  \<open>Promise<ExecutionResult<TData>>\<close>; the second is \<open>MutationResult<TData>\<close>. The three
  names resolve to the interfaces this file declares. \<open>MutationFunction\<close> (lines 183-188)
  has the same parameters and type parameters as that first element, and returns
  \<open>Promise<FetchResult<TData>>\<close>.
\<close>

theorem MutationTuple_trigger_and_snapshot:
  "trigger_of (MutationTuple TData TVariables) =
     Some (TFunction []
             [Param ''options'' Optional (TRef ''MutationFunctionOptions'' [TData, TVariables])]
             (Promise (TRef ''ExecutionResult'' [TData])))
   \<and> snapshot_of (MutationTuple TData TVariables) = Some (TRef ''MutationResult'' [TData])
   \<and> map_option length (tuple_elements (MutationTuple TData TVariables)) = Some 2
   \<and> declared oq (TRef ''MutationFunctionOptions'' [TData, TVariables]) =
       Some (MutationFunctionOptions TData TVariables)
   \<and> declared oq (TRef ''ExecutionResult'' [TData]) = Some (ExecutionResult TData)
   \<and> declared oq (TRef ''MutationResult'' [TData]) = Some (MutationResult TData)
   \<and> Option.bind (trigger_of (MutationTuple TData TVariables)) params_of =
       params_of (MutationFunction TData TVariables)
   \<and> Option.bind (trigger_of (MutationTuple TData TVariables)) type_params_of =
       type_params_of (MutationFunction TData TVariables)
   \<and> return_type_of (MutationFunction TData TVariables) = Some (Promise (FetchResult TData))"
  by (simp add: MutationTuple_def MutationFunction_def)

text \<open>
  C2. \<open>QueryResult\<close> (lines 84-92), whatever the members of the imported
  \<open>ObservableQuery\<close> class are, has the members \<open>data\<close> (required, of type
  \<open>TData | undefined\<close>), \<open>error\<close> (optional, \<open>ApolloError\<close>), \<open>loading\<close> (required,
  \<open>boolean\<close>), \<open>networkStatus\<close> (required, the imported type \<open>NetworkStatus\<close>) and
  \<open>called\<close> (required, \<open>boolean\<close>).
\<close>

theorem QueryResult_snapshot_fields:
  "lookup_member (QueryResult oq TData TVariables) ''data'' =
     Some (required ''data'' (TUnion TData TUndefined))
   \<and> lookup_member (QueryResult oq TData TVariables) ''error'' =
       Some (optional ''error'' ApolloError)
   \<and> lookup_member (QueryResult oq TData TVariables) ''loading'' =
       Some (required ''loading'' TBoolean)
   \<and> lookup_member (QueryResult oq TData TVariables) ''networkStatus'' =
       Some (required ''networkStatus'' NetworkStatus)
   \<and> lookup_member (QueryResult oq TData TVariables) ''called'' =
       Some (required ''called'' TBoolean)"
  by (simp add: QueryResult_def lookup_member_interface_extends lookup_member_Cons member_defs)

text \<open>
  C4. \<open>fetchMore\<close> is a member of \<open>QueryResult\<close>, inherited from
  \<open>ObservableQueryFields\<close> (lines 62-82) whatever the members of the imported
  \<open>ObservableQuery\<close> class are. Its type is the intersection of exactly two function
  types. The first has the type parameter \<open>K extends keyof TVariables\<close>, takes
  \<open>FetchMoreQueryOptions<TVariables, K> & FetchMoreOptions<TData, TVariables>\<close> and
  returns \<open>Promise<ApolloQueryResult<TData>>\<close>. The second binds its own type parameters
  \<open>TData2\<close>, \<open>TVariables2\<close> and \<open>K extends keyof TVariables2\<close>, takes
  \<open>{ query?: DocumentNode } & FetchMoreQueryOptions<TVariables2, K> &
  FetchMoreOptions<TData2, TVariables2>\<close> and returns
  \<open>Promise<ApolloQueryResult<TData2>>\<close>; it does not depend on \<open>TData\<close> or
  \<open>TVariables\<close>.
\<close>

theorem fetchMore_two_call_shapes:
  "lookup_member (QueryResult oq TData TVariables) ''fetchMore'' =
     Some (required ''fetchMore'' (fetchMore_type TData TVariables))
   \<and> call_signatures (fetchMore_type TData TVariables) =
       [fetchMore_same_type TData TVariables, fetchMore_cross_type]
   \<and> type_params_of (fetchMore_same_type TData TVariables) =
       Some [TypeParam ''K'' (Some (TKeyof TVariables))]
   \<and> params_of (fetchMore_same_type TData TVariables) =
       Some [Param ''fetchMoreOptions'' Required
               (TInter (FetchMoreQueryOptions TVariables (TVar ''K''))
                       (FetchMoreOptions TData TVariables))]
   \<and> return_type_of (fetchMore_same_type TData TVariables) =
       Some (Promise (ApolloQueryResult TData))
   \<and> type_params_of fetchMore_cross_type =
       Some [TypeParam ''TData2'' None, TypeParam ''TVariables2'' None,
             TypeParam ''K'' (Some (TKeyof (TVar ''TVariables2'')))]
   \<and> params_of fetchMore_cross_type =
       Some [Param ''fetchMoreOptions'' Required
               (TInter
                  (TInter (TObject [optional ''query'' DocumentNode])
                          (FetchMoreQueryOptions (TVar ''TVariables2'') (TVar ''K'')))
                  (FetchMoreOptions (TVar ''TData2'') (TVar ''TVariables2'')))]
   \<and> return_type_of fetchMore_cross_type =
       Some (Promise (ApolloQueryResult (TVar ''TData2'')))"
proof -
  have "lookup_member (ObservableQueryFields oq TData TVariables) ''fetchMore'' =
          Some (required ''fetchMore'' (fetchMore_type TData TVariables))"
    by (simp add: ObservableQueryFields_def lookup_member_intersect_members
        lookup_member_Pick lookup_member_Cons member_defs)
  then have exposed: "lookup_member (QueryResult oq TData TVariables) ''fetchMore'' =
          Some (required ''fetchMore'' (fetchMore_type TData TVariables))"
    by (simp add: QueryResult_def lookup_member_interface_extends lookup_member_Cons
        lookup_member_Nil member_defs)
  have shapes: "call_signatures (fetchMore_type TData TVariables) =
          [fetchMore_same_type TData TVariables, fetchMore_cross_type]"
    by (simp add: fetchMore_type_def fetchMore_same_type_def fetchMore_cross_type_def)
  show ?thesis
    using exposed shapes by (simp add: fetchMore_same_type_def fetchMore_cross_type_def)
qed

text \<open>
  C5. \<open>SubscriptionResult\<close> (lines 231-235) has exactly the members \<open>loading\<close>
  (required, \<open>boolean\<close>), \<open>data\<close> (optional, \<open>TData\<close>) and \<open>error\<close> (optional,
  \<open>ApolloError\<close>). It has no member \<open>refetch\<close> and no member \<open>fetchMore\<close>, and shares
  no member name with \<open>ObservableQueryFields\<close>, the controls a \<open>QueryResult\<close> carries.
\<close>

theorem SubscriptionResult_has_no_controls:
  "member_names (SubscriptionResult TData) = [''loading'', ''data'', ''error'']
   \<and> lookup_member (SubscriptionResult TData) ''loading'' = Some (required ''loading'' TBoolean)
   \<and> lookup_member (SubscriptionResult TData) ''data'' = Some (optional ''data'' TData)
   \<and> lookup_member (SubscriptionResult TData) ''error'' = Some (optional ''error'' ApolloError)
   \<and> lookup_member (SubscriptionResult TData) ''refetch'' = None
   \<and> lookup_member (SubscriptionResult TData) ''fetchMore'' = None
   \<and> set (member_names (SubscriptionResult TData)) \<inter>
       set (member_names (ObservableQueryFields oq TData' TVariables)) = {}"
proof -
  have names: "member_names (SubscriptionResult TData) = [''loading'', ''data'', ''error'']"
    by (simp add: SubscriptionResult_def member_names_def member_defs)
  have a: "''loading'' \<notin> set (member_names (ObservableQueryFields oq TData' TVariables))"
    by (rule not_member_name, rule lookup_member_ObservableQueryFields_other) simp
  have b: "''data'' \<notin> set (member_names (ObservableQueryFields oq TData' TVariables))"
    by (rule not_member_name, rule lookup_member_ObservableQueryFields_other) simp
  have c: "''error'' \<notin> set (member_names (ObservableQueryFields oq TData' TVariables))"
    by (rule not_member_name, rule lookup_member_ObservableQueryFields_other) simp
  have lookups:
    "lookup_member (SubscriptionResult TData) ''loading'' = Some (required ''loading'' TBoolean)
     \<and> lookup_member (SubscriptionResult TData) ''data'' = Some (optional ''data'' TData)
     \<and> lookup_member (SubscriptionResult TData) ''error'' = Some (optional ''error'' ApolloError)
     \<and> lookup_member (SubscriptionResult TData) ''refetch'' = None
     \<and> lookup_member (SubscriptionResult TData) ''fetchMore'' = None"
    by (simp add: SubscriptionResult_def lookup_member_Cons lookup_member_Nil member_defs)
  show ?thesis
    using a b c lookups unfolding names by simp
qed

text \<open>
  C6. In \<open>BaseMutationOptions\<close> (line 148), and so in \<open>MutationHookOptions\<close> and
  \<open>MutationOptions\<close> that extend it, and in \<open>MutationFunctionOptions\<close> (line 167), the
  member \<open>optimisticResponse\<close> is optional and its type is a union of two alternatives:
  \<open>TData\<close>, or a function of one parameter \<open>vars\<close> returning \<open>TData\<close>. The parameter
  has type \<open>TVariables\<close> in \<open>BaseMutationOptions\<close> and \<open>TVariables | {}\<close> in
  \<open>MutationFunctionOptions\<close>: in both the function is applicable to the variables of the
  mutation.
\<close>

theorem optimisticResponse_literal_or_function:
  "lookup_member (BaseMutationOptions TData TVariables) ''optimisticResponse'' =
     Some (optional ''optimisticResponse''
             (TUnion TData (TFunction [] [Param ''vars'' Required TVariables] TData)))
   \<and> lookup_member (MutationFunctionOptions TData TVariables) ''optimisticResponse'' =
       Some (optional ''optimisticResponse''
               (TUnion TData
                  (TFunction [] [Param ''vars'' Required (TUnion TVariables (TObject []))]
                     TData)))
   \<and> lookup_member (MutationHookOptions TData TVariables) ''optimisticResponse'' =
       lookup_member (BaseMutationOptions TData TVariables) ''optimisticResponse''
   \<and> lookup_member (MutationOptions TData TVariables) ''optimisticResponse'' =
       lookup_member (BaseMutationOptions TData TVariables) ''optimisticResponse''"
  by (simp add: BaseMutationOptions_def MutationFunctionOptions_def MutationHookOptions_def
      MutationOptions_def lookup_member_interface_extends lookup_member_Cons lookup_member_Nil
      member_defs)



text \<open>
  C8. \<open>QueryFunctionOptions\<close> (with the members it inherits from
  \<open>BaseQueryOptions\<close>) has the eight keys named for query options,
  \<open>BaseMutationOptions\<close> the eight named for mutation options and
  \<open>BaseSubscriptionOptions\<close> the four named for subscription options; each of the
  sixteen configuration keys is a member of at least one of the three.
\<close>

theorem configuration_keys_in_bundles:
  "set [''fetchPolicy'', ''errorPolicy'', ''pollInterval'', ''skip'',
        ''notifyOnNetworkStatusChange'', ''returnPartialData'', ''onCompleted'', ''onError'']
     \<subseteq> set (member_names (QueryFunctionOptions TData TVariables))
   \<and> set [''optimisticResponse'', ''refetchQueries'', ''awaitRefetchQueries'', ''update'',
          ''ignoreResults'', ''errorPolicy'', ''onCompleted'', ''onError'']
     \<subseteq> set (member_names (BaseMutationOptions TData TVariables))
   \<and> set [''skip'', ''shouldResubscribe'', ''onSubscriptionData'', ''onSubscriptionComplete'']
     \<subseteq> set (member_names (BaseSubscriptionOptions TData TVariables))
   \<and> set [''fetchPolicy'', ''errorPolicy'', ''pollInterval'', ''skip'',
          ''notifyOnNetworkStatusChange'', ''returnPartialData'', ''optimisticResponse'',
          ''refetchQueries'', ''awaitRefetchQueries'', ''update'', ''ignoreResults'',
          ''onCompleted'', ''onError'', ''onSubscriptionData'', ''onSubscriptionComplete'',
          ''shouldResubscribe'']
     \<subseteq> set (member_names (QueryFunctionOptions TData TVariables))
       \<union> set (member_names (BaseMutationOptions TData TVariables))
       \<union> set (member_names (BaseSubscriptionOptions TData TVariables))"
proof -
  have q: "member_names (QueryFunctionOptions TData TVariables) =
      [''ssr'', ''variables'', ''fetchPolicy'', ''errorPolicy'', ''pollInterval'', ''client'',
       ''notifyOnNetworkStatusChange'', ''context'', ''partialRefetch'', ''returnPartialData'',
       ''displayName'', ''skip'', ''onCompleted'', ''onError'']"
    by (simp add: QueryFunctionOptions_def BaseQueryOptions_def interface_extends_def
        member_names_def member_defs)
  have m: "member_names (BaseMutationOptions TData TVariables) =
      [''variables'', ''optimisticResponse'', ''refetchQueries'', ''awaitRefetchQueries'',
       ''errorPolicy'', ''update'', ''client'', ''notifyOnNetworkStatusChange'', ''context'',
       ''onCompleted'', ''onError'', ''fetchPolicy'', ''ignoreResults'']"
    by (simp add: BaseMutationOptions_def member_names_def member_defs)
  have s: "member_names (BaseSubscriptionOptions TData TVariables) =
      [''variables'', ''fetchPolicy'', ''shouldResubscribe'', ''client'', ''skip'',
       ''onSubscriptionData'', ''onSubscriptionComplete'']"
    by (simp add: BaseSubscriptionOptions_def member_names_def member_defs)
  show ?thesis unfolding q m s by simp
qed

text \<open>
  C9. \<open>LazyQueryHookOptions\<close> (lines 105-110) has no member \<open>skip\<close>, while
  \<open>QueryFunctionOptions\<close>, \<open>QueryOptions\<close> and \<open>QueryHookOptions\<close> have the optional
  member \<open>skip: boolean\<close>. \<open>LazyQueryHookOptions\<close> is \<open>QueryHookOptions\<close> with
  \<open>skip\<close> removed and nothing else changed.
\<close>

theorem LazyQueryHookOptions_excludes_skip:
  "lookup_member (LazyQueryHookOptions TData TVariables) ''skip'' = None
   \<and> lookup_member (QueryFunctionOptions TData TVariables) ''skip'' =
       Some (optional ''skip'' TBoolean)
   \<and> lookup_member (QueryOptions TData TVariables) ''skip'' = Some (optional ''skip'' TBoolean)
   \<and> lookup_member (QueryHookOptions TData TVariables) ''skip'' =
       Some (optional ''skip'' TBoolean)
   \<and> LazyQueryHookOptions TData TVariables = Omit (QueryHookOptions TData TVariables) [''skip'']"
proof -
  have f: "lookup_member (QueryFunctionOptions TData TVariables) ''skip'' =
      Some (optional ''skip'' TBoolean)"
    by (simp add: QueryFunctionOptions_def lookup_member_interface_extends lookup_member_Cons
        member_defs)
  have l: "lookup_member (LazyQueryHookOptions TData TVariables) ''skip'' = None"
    by (simp add: LazyQueryHookOptions_def lookup_member_interface_extends lookup_member_Omit
        lookup_member_Cons lookup_member_Nil member_defs)
  have o: "lookup_member (QueryOptions TData TVariables) ''skip'' =
      Some (optional ''skip'' TBoolean)"
    using f
    by (simp add: QueryOptions_def lookup_member_interface_extends lookup_member_Cons
        lookup_member_Nil member_defs)
  have h: "lookup_member (QueryHookOptions TData TVariables) ''skip'' =
      Some (optional ''skip'' TBoolean)"
    using f
    by (simp add: QueryHookOptions_def lookup_member_interface_extends lookup_member_Cons
        lookup_member_Nil member_defs)
  have e: "LazyQueryHookOptions TData TVariables =
      Omit (QueryHookOptions TData TVariables) [''skip'']"
    by (simp add: LazyQueryHookOptions_def QueryHookOptions_def interface_extends_def Omit_def
        member_names_def member_defs conj_commute)
  show ?thesis using f l o h e by simp
qed

text \<open>
  C10, as amended. The first element of \<open>QueryTuple\<close> (lines 132-135) is a function of
  one optional parameter \<open>options: QueryLazyOptions<TVariables>\<close> whose return type is
  \<open>void\<close>, while the first element of \<open>MutationTuple\<close> returns
  \<open>Promise<ExecutionResult<TData>>\<close>, which is not \<open>void\<close>. The second element of
  \<open>QueryTuple\<close> is \<open>QueryResult<TData, TVariables>\<close>, the interface of this file, which
  carries the outcome in its members \<open>data\<close> and \<open>error\<close>. The parameter of the trigger,
  \<open>QueryLazyOptions\<close>, has the members \<open>variables\<close> and \<open>context\<close> only. The snapshot
  is not the only declared place the outcome reaches: \<open>LazyQueryHookOptions\<close>
  (lines 105-110) inherits the callbacks \<open>onCompleted(data: TData)\<close> and
  \<open>onError(error: ApolloError)\<close>.
\<close>

theorem QueryTuple_trigger_returns_void:
  "trigger_of (QueryTuple TData TVariables) =
     Some (TFunction [] [Param ''options'' Optional (TRef ''QueryLazyOptions'' [TVariables])]
             TVoid)
   \<and> Option.bind (trigger_of (QueryTuple TData TVariables)) return_type_of = Some TVoid
   \<and> snapshot_of (QueryTuple TData TVariables) = Some (TRef ''QueryResult'' [TData, TVariables])
   \<and> declared oq (TRef ''QueryResult'' [TData, TVariables]) =
       Some (QueryResult oq TData TVariables)
   \<and> Option.bind (trigger_of (MutationTuple TData TVariables)) return_type_of =
       Some (Promise (TRef ''ExecutionResult'' [TData]))
   \<and> Promise (TRef ''ExecutionResult'' [TData]) \<noteq> TVoid
   \<and> lookup_member (QueryResult oq TData TVariables) ''data'' =
       Some (required ''data'' (TUnion TData TUndefined))
   \<and> lookup_member (QueryResult oq TData TVariables) ''error'' =
       Some (optional ''error'' ApolloError)
   \<and> declared oq (TRef ''QueryLazyOptions'' [TVariables]) = Some (QueryLazyOptions TVariables)
   \<and> member_names (QueryLazyOptions TVariables) = [''variables'', ''context'']
   \<and> lookup_member (LazyQueryHookOptions TData TVariables) ''onCompleted'' =
       Some (optional ''onCompleted'' (TFunction [] [Param ''data'' Required TData] TVoid))
   \<and> lookup_member (LazyQueryHookOptions TData TVariables) ''onError'' =
       Some (optional ''onError'' (TFunction [] [Param ''error'' Required ApolloError] TVoid))
   \<and> ''onCompleted'' \<in> set (outcome_callbacks TData (LazyQueryHookOptions TData TVariables))
   \<and> ''onError'' \<in> set (outcome_callbacks TData (LazyQueryHookOptions TData TVariables))"
proof -
  have tuples:
    "trigger_of (QueryTuple TData TVariables) =
       Some (TFunction [] [Param ''options'' Optional (TRef ''QueryLazyOptions'' [TVariables])]
               TVoid)
     \<and> Option.bind (trigger_of (QueryTuple TData TVariables)) return_type_of = Some TVoid
     \<and> snapshot_of (QueryTuple TData TVariables) =
         Some (TRef ''QueryResult'' [TData, TVariables])
     \<and> declared oq (TRef ''QueryResult'' [TData, TVariables]) =
         Some (QueryResult oq TData TVariables)
     \<and> Option.bind (trigger_of (MutationTuple TData TVariables)) return_type_of =
         Some (Promise (TRef ''ExecutionResult'' [TData]))
     \<and> Promise (TRef ''ExecutionResult'' [TData]) \<noteq> TVoid
     \<and> declared oq (TRef ''QueryLazyOptions'' [TVariables]) =
         Some (QueryLazyOptions TVariables)"
    by (simp add: QueryTuple_def MutationTuple_def Promise_def)
  have snapshot:
    "lookup_member (QueryResult oq TData TVariables) ''data'' =
       Some (required ''data'' (TUnion TData TUndefined))
     \<and> lookup_member (QueryResult oq TData TVariables) ''error'' =
         Some (optional ''error'' ApolloError)"
    by (simp add: QueryResult_def lookup_member_interface_extends lookup_member_Cons
        member_defs)
  have lazy_options: "member_names (QueryLazyOptions TVariables) = [''variables'', ''context'']"
    by (simp add: QueryLazyOptions_def member_names_def member_defs)
  note callbacks = lookup_member_LazyQueryHookOptions_callbacks [of TData TVariables]
  have completed:
    "''onCompleted'' \<in> set (outcome_callbacks TData (LazyQueryHookOptions TData TVariables))"
    by (rule outcome_callbacks_member [OF conjunct1 [OF callbacks]])
       (simp add: receives_def member_defs)
  have failed:
    "''onError'' \<in> set (outcome_callbacks TData (LazyQueryHookOptions TData TVariables))"
    by (rule outcome_callbacks_member [OF conjunct2 [OF callbacks]])
       (simp add: receives_def member_defs)
  show ?thesis
    using tuples snapshot lazy_options callbacks completed failed by simp
qed

text \<open>
  At \<open>TData = string\<close> and \<open>TVariables = OperationVariables\<close> the callbacks of
  \<open>LazyQueryHookOptions\<close> that are applied to the data or to the error are
  \<open>onCompleted\<close> and \<open>onError\<close>: the list is not empty, so the paired snapshot is not
  the only way the file declares for the outcome of a lazy query to be observed.
\<close>

theorem lazy_query_outcome_also_in_callbacks:
  "outcome_callbacks TString (LazyQueryHookOptions TString OperationVariables) =
     [''onCompleted'', ''onError'']
   \<and> outcome_callbacks TString (LazyQueryHookOptions TString OperationVariables) \<noteq> []"
  by (simp add: outcome_callbacks_def receives_def LazyQueryHookOptions_def
      QueryFunctionOptions_def BaseQueryOptions_def interface_extends_def Omit_def
      member_names_def member_defs WatchQueryFetchPolicy_def ErrorPolicy_def ApolloClient_def
      Context_def Record_def OperationVariables_def DocumentNode_def ApolloError_def)

end
